theory Spec2Isabelle
  imports Complex_Main "HOL-Library.Char_ord" "HOL-Library.List_Lexorder"
begin

section \<open>Python values, exceptions and built-ins used by the benchmark scripts\<close>

text \<open>
  The scripts \<^verbatim>\<open>benchmark_python.py\<close> and \<^verbatim>\<open>simple_python_benchmark.py\<close> work on
  Python numbers: nanosecond readings are \<^verbatim>\<open>int\<close>, millisecond values are \<^verbatim>\<open>float\<close>.
  Both are embedded as \<^typ>\<open>real\<close>; a float operation is taken to return the exact
  result (no rounding, no NaN, no infinities), so \<^verbatim>\<open>n * 0.95\<close> is the exact product.
  An exception is a value \<open>Inl e\<close>.
\<close>

datatype error = ValueError | StatisticsError | IndexError | ZeroDivisionError
  | KeyError | TypeError

definition bind_e :: "error + 'a \<Rightarrow> ('a \<Rightarrow> error + 'b) \<Rightarrow> error + 'b" where
  "bind_e m f = (case m of Inl e \<Rightarrow> Inl e | Inr v \<Rightarrow> f v)"

text \<open>\<^verbatim>\<open>min(xs)\<close> and \<^verbatim>\<open>max(xs)\<close>: ValueError on an empty sequence.\<close>

definition py_min :: "real list \<Rightarrow> error + real" where
  "py_min xs = (case xs of [] \<Rightarrow> Inl ValueError | x # rest \<Rightarrow> Inr (fold min rest x))"

definition py_max :: "real list \<Rightarrow> error + real" where
  "py_max xs = (case xs of [] \<Rightarrow> Inl ValueError | x # rest \<Rightarrow> Inr (fold max rest x))"

text \<open>\<^verbatim>\<open>int(x)\<close> on a float truncates towards zero.\<close>

definition py_int :: "real \<Rightarrow> int" where
  "py_int x = (if 0 \<le> x then \<lfloor>x\<rfloor> else \<lceil>x\<rceil>)"

text \<open>\<^verbatim>\<open>xs[i]\<close>: a negative index counts from the end, IndexError out of range.\<close>

definition index_py :: "'a list \<Rightarrow> int \<Rightarrow> error + 'a" where
  "index_py xs i =
     (if 0 \<le> i \<and> i < int (length xs) then Inr (xs ! nat i)
      else if i < 0 \<and> - int (length xs) \<le> i then Inr (xs ! nat (int (length xs) + i))
      else Inl IndexError)"

text \<open>
  The \<^verbatim>\<open>statistics\<close> module: \<^verbatim>\<open>mean\<close> and \<^verbatim>\<open>median\<close> raise StatisticsError on
  no data; \<^verbatim>\<open>median\<close> sorts and takes the middle element, or the mean of the two
  middle elements; \<^verbatim>\<open>stdev\<close> is the square root of the sample variance (sum of
  squared deviations from the mean over \<open>n - 1\<close>) and needs two data points.
\<close>

definition mean :: "real list \<Rightarrow> error + real" where
  "mean xs = (if xs = [] then Inl StatisticsError
              else Inr (sum_list xs / real (length xs)))"

definition median :: "real list \<Rightarrow> error + real" where
  "median xs =
     (let data = sort xs; n = length data in
      if n = 0 then Inl StatisticsError
      else if n mod 2 = 1 then Inr (data ! (n div 2))
      else Inr ((data ! (n div 2 - 1) + data ! (n div 2)) / 2))"

definition stdev :: "real list \<Rightarrow> error + real" where
  "stdev xs =
     (let n = length xs in
      if n < 2 then Inl StatisticsError
      else let m = sum_list xs / real n;
               ss = sum_list (map (\<lambda>x. (x - m) ^ 2) xs)
           in Inr (sqrt (ss / real (n - 1))))"

section \<open>List objects\<close>

text \<open>
  A Python list of numbers is an object: two variables may name the same list, and
  \<^verbatim>\<open>list.sort()\<close> and \<^verbatim>\<open>list.append()\<close> change it in place. The store holds the
  contents of every list object; a reference is its position in the store.
\<close>

type_synonym heap = "real list list"

definition alloc :: "heap \<Rightarrow> real list \<Rightarrow> heap \<times> nat" where
  "alloc h xs = (h @ [xs], length h)"

section \<open>\<^verbatim>\<open>PythonBenchmark.calculate_stats\<close> (benchmark_python.py)\<close>

record stats =
  count :: nat
  min_ms :: real
  max_ms :: real
  avg :: real
  median_ms :: real
  p95 :: real
  p99 :: real
  stddev :: real

text \<open>
  \<open>times_r\<close> is the reference held by the parameter \<^verbatim>\<open>times\<close>, the list of
  nanosecond samples. The millisecond list
  \<open>times_ms\<close> is a new list object, and it is this one that is sorted. The result is
  \<open>Inr None\<close> for Python's \<^verbatim>\<open>None\<close>. The dictionary's entries are evaluated in the
  order they are written.
\<close>

definition calculate_stats :: "heap \<Rightarrow> nat \<Rightarrow> heap \<times> (error + stats option)" where
  "calculate_stats h times_r =
     (if h ! times_r = [] then (h, Inr None)
      else
        let (h1, times_ms) = alloc h (map (\<lambda>t. t / 1000000) (h ! times_r));
            h2 = h1[times_ms := sort (h1 ! times_ms)];
            n = length (h2 ! times_ms)
        in (h2,
            bind_e (py_min (h2 ! times_ms)) (\<lambda>mn.
            bind_e (py_max (h2 ! times_ms)) (\<lambda>mx.
            bind_e (mean (h2 ! times_ms)) (\<lambda>av.
            bind_e (median (h2 ! times_ms)) (\<lambda>md.
            bind_e (if n > 0 then index_py (h2 ! times_ms) (py_int (real n * 0.95))
                    else Inr 0) (\<lambda>q95.
            bind_e (if n > 0 then index_py (h2 ! times_ms) (py_int (real n * 0.99))
                    else Inr 0) (\<lambda>q99.
            bind_e (if n > 1 then stdev (h2 ! times_ms) else Inr 0) (\<lambda>sd.
            Inr (Some \<lparr>count = n, min_ms = mn, max_ms = mx, avg = av, median_ms = md,
                       p95 = q95, p99 = q99, stddev = sd\<rparr>))))))))))"

section \<open>\<^verbatim>\<open>calc_stats\<close> (simple_python_benchmark.py)\<close>

record simple_stats =
  s_min :: real
  s_max :: real
  s_avg :: real
  s_median :: real
  s_p95 :: real
  s_p99 :: real

text \<open>
  Here the list that \<^verbatim>\<open>times\<close> refers to (reference \<open>times_r\<close>) is sorted
  itself: \<^verbatim>\<open>times.sort()\<close> rearranges the caller's list. On an empty list
  \<^verbatim>\<open>min(times)\<close> raises before any percentile is looked up.
\<close>

definition calc_stats :: "heap \<Rightarrow> nat \<Rightarrow> heap \<times> (error + simple_stats)" where
  "calc_stats h times_r =
     (let h1 = h[times_r := sort (h ! times_r)];
          n = length (h1 ! times_r)
      in (h1,
          bind_e (py_min (h1 ! times_r)) (\<lambda>mn.
          bind_e (py_max (h1 ! times_r)) (\<lambda>mx.
          bind_e (mean (h1 ! times_r)) (\<lambda>av.
          bind_e (median (h1 ! times_r)) (\<lambda>md.
          bind_e (if n > 0 then index_py (h1 ! times_r) (py_int (real n * 0.95))
                  else Inr 0) (\<lambda>q95.
          bind_e (if n > 0 then index_py (h1 ! times_r) (py_int (real n * 0.99))
                  else Inr 0) (\<lambda>q99.
          Inr \<lparr>s_min = mn, s_max = mx, s_avg = av, s_median = md,
               s_p95 = q95, s_p99 = q99\<rparr>))))))))"

section \<open>The timer and the measured loops (benchmark_python.py)\<close>

text \<open>
  \<^verbatim>\<open>time.perf_counter_ns()\<close> is the environment's clock: \<open>clk k\<close> is the value of
  the \<open>k\<close>-th reading taken during the run, and \<open>tick\<close> counts the readings taken so
  far. The measured function is opaque; its only modelled effect is that time passes
  between the two readings. Of the returned dictionary the keys \<^verbatim>\<open>time_ns\<close> and
  \<^verbatim>\<open>time_ms\<close> are kept.
\<close>

record measurement =
  time_ns :: real
  time_ms :: real

definition measure_time_ns :: "(nat \<Rightarrow> int) \<Rightarrow> nat \<Rightarrow> measurement \<times> nat" where
  "measure_time_ns clk tick =
     (let start = clk tick;
          end_t = clk (tick + 1)
      in (\<lparr>time_ns = of_int (end_t - start),
           time_ms = of_int (end_t - start) / 1000000\<rparr>, tick + 2))"

text \<open>
  \<^verbatim>\<open>self.results = {"startup": [], "operations": []}\<close>: two list objects, at the
  references \<open>startup_r\<close> and \<open>operations_r\<close> of the store.
\<close>

definition startup_r :: nat where
  "startup_r = 0"

definition operations_r :: nat where
  "operations_r = 1"

definition init_results :: heap where
  "init_results = [[], []]"

text \<open>
  Both loops run \<^verbatim>\<open>measure_time_ns\<close> once per iteration and append
  \<^verbatim>\<open>measurement["time_ns"]\<close> to their list.
\<close>

fun measure_and_append :: "(nat \<Rightarrow> int) \<Rightarrow> nat \<Rightarrow> nat \<Rightarrow> nat \<times> heap \<Rightarrow> nat \<times> heap" where
  "measure_and_append clk r 0 st = st"
| "measure_and_append clk r (Suc i) (tick, h) =
     (let (measurement, tick') = measure_time_ns clk tick
      in measure_and_append clk r i (tick', h[r := h ! r @ [time_ns measurement]]))"

definition benchmark_python_startup :: "(nat \<Rightarrow> int) \<Rightarrow> nat \<Rightarrow> nat \<times> heap \<Rightarrow> nat \<times> heap" where
  "benchmark_python_startup clk iterations st = measure_and_append clk startup_r iterations st"

definition benchmark_python_operations :: "(nat \<Rightarrow> int) \<Rightarrow> nat \<Rightarrow> nat \<times> heap \<Rightarrow> nat \<times> heap" where
  "benchmark_python_operations clk iterations st =
     measure_and_append clk operations_r iterations st"

section \<open>\<^verbatim>\<open>PythonBenchmark.run_benchmark\<close>\<close>

record py_results =
  startup :: "stats option"
  operations :: "stats option"
  file_size_kb :: nat

text \<open>
  The warm-up calls are not timed and leave no trace in the results. The loops run
  with their default iteration counts, 50 and 1000.
\<close>

definition run_benchmark :: "bool \<Rightarrow> (nat \<Rightarrow> int) \<Rightarrow> error + py_results option" where
  "run_benchmark PYTHON_AVAILABLE clk =
     (if \<not> PYTHON_AVAILABLE then Inr None
      else
        let st1 = benchmark_python_startup clk 50 (0, init_results);
            (tick, h) = benchmark_python_operations clk 1000 st1;
            (h1, startup_stats) = calculate_stats h startup_r;
            (h2, operations_stats) = calculate_stats h1 operations_r
        in bind_e startup_stats (\<lambda>ss.
           bind_e operations_stats (\<lambda>os.
           Inr (Some \<lparr>startup = ss, operations = os, file_size_kb = 681\<rparr>))))"

section \<open>\<^verbatim>\<open>print_comprehensive_results\<close> and \<^verbatim>\<open>main\<close>\<close>

text \<open>
  \<^verbatim>\<open>run_nodejs_benchmark\<close> starts an external process and catches every exception;
  its return value is an input of the model. It is \<^verbatim>\<open>None\<close>, or the \<^verbatim>\<open>napi\<close> entry
  that the embedded script prints: the statistics of \<^verbatim>\<open>calcStats\<close> with the file
  size, or \<^verbatim>\<open>{error: message}\<close> when the add-on could not be loaded, or the empty
  dictionary that \<^verbatim>\<open>data.get("napi", {})\<close> falls back to.
\<close>

record napi_stats =
  n_min :: real
  n_max :: real
  n_avg :: real
  n_median :: real
  n_p95 :: real

datatype nodejs_dict = NapiStats napi_stats napi_stats nat | NapiError string | NapiEmpty

text \<open>Truth value of \<^verbatim>\<open>nodejs_results\<close>: \<^verbatim>\<open>None\<close> and \<^verbatim>\<open>{}\<close> are false.\<close>

fun truthy :: "nodejs_dict option \<Rightarrow> bool" where
  "truthy None = False"
| "truthy (Some NapiEmpty) = False"
| "truthy (Some d) = True"

text \<open>Subscripts of \<^verbatim>\<open>nodejs_results\<close>: a missing key raises KeyError.\<close>

fun node_file_size_kb :: "nodejs_dict \<Rightarrow> error + nat" where
  "node_file_size_kb (NapiStats st ops kb) = Inr kb"
| "node_file_size_kb d = Inl KeyError"

fun node_startup :: "nodejs_dict \<Rightarrow> error + napi_stats" where
  "node_startup (NapiStats st ops kb) = Inr st"
| "node_startup d = Inl KeyError"

fun node_operations :: "nodejs_dict \<Rightarrow> error + napi_stats" where
  "node_operations (NapiStats st ops kb) = Inr ops"
| "node_operations d = Inl KeyError"

text \<open>\<^verbatim>\<open>py_startup['avg']\<close> and the like: subscripting \<^verbatim>\<open>None\<close> raises TypeError.\<close>

definition subscript :: "stats option \<Rightarrow> (stats \<Rightarrow> real) \<Rightarrow> error + real" where
  "subscript d key = (case d of None \<Rightarrow> Inl TypeError | Some s \<Rightarrow> Inr (key s))"

text \<open>Float division: \<^verbatim>\<open>a / b\<close> raises ZeroDivisionError when \<open>b\<close> is zero.\<close>

definition py_div :: "real \<Rightarrow> real \<Rightarrow> error + real" where
  "py_div a b = (if b = 0 then Inl ZeroDivisionError else Inr (a / b))"

text \<open>
  What is printed is kept as data: a line is a heading, a file size (\<open>None\<close> for
  \<^verbatim>\<open>N/A\<close>), a row of the three adapters' values with the name of the fastest, a row
  of three ratios, or the closing hint. Number formatting and the fixed
  recommendation texts are left out. When an exception ends the run the result is
  the exception, and the lines printed before it are not kept.
\<close>

datatype line =
    Heading string
  | FileSize string "nat option"
  | Row string real real real string
  | Ratios string real real real
  | Hint string

text \<open>
  The chain \<^verbatim>\<open>fastest = min(py, napi, wasi)\<close>,
  \<^verbatim>\<open>if fastest == py: "Python" elif fastest == napi: "NAPI" else: "WASI"\<close>.
\<close>

definition fastest_name :: "real \<Rightarrow> real \<Rightarrow> real \<Rightarrow> string" where
  "fastest_name py napi wasi =
     (let fastest = min py (min napi wasi)
      in if fastest = py then ''Python'' else if fastest = napi then ''NAPI'' else ''WASI'')"

text \<open>
  The ratio block (it is written twice, for startup and for operations):
  \<^verbatim>\<open>fastest = min(py, napi, wasi)\<close>, then each mean divided by \<open>fastest\<close>, the
  Python ratio first.
\<close>

definition ratios_to_fastest :: "real \<Rightarrow> real \<Rightarrow> real \<Rightarrow> error + real \<times> real \<times> real" where
  "ratios_to_fastest py napi wasi =
     (let fastest = min py (min napi wasi)
      in bind_e (py_div py fastest) (\<lambda>py_ratio.
         bind_e (py_div napi fastest) (\<lambda>napi_ratio.
         bind_e (py_div wasi fastest) (\<lambda>wasi_ratio.
         Inr (py_ratio, napi_ratio, wasi_ratio)))))"

definition wasi_startup_avg :: real where
  "wasi_startup_avg = 1.203"

definition wasi_ops_avg :: real where
  "wasi_ops_avg = 0.396"

text \<open>The body of \<^verbatim>\<open>if python_results and nodejs_results:\<close>.\<close>

definition comparison :: "py_results \<Rightarrow> nodejs_dict \<Rightarrow> error + line list" where
  "comparison python_results nodejs_results =
     (let py_startup = startup python_results in
      bind_e (node_startup nodejs_results) (\<lambda>napi_startup.
      bind_e (subscript py_startup avg) (\<lambda>py_s_avg.
      bind_e (subscript py_startup median_ms) (\<lambda>py_s_median.
      bind_e (subscript py_startup p95) (\<lambda>py_s_p95.
      let py_ops = operations python_results in
      bind_e (node_operations nodejs_results) (\<lambda>napi_ops.
      bind_e (subscript py_ops avg) (\<lambda>py_o_avg.
      bind_e (subscript py_ops median_ms) (\<lambda>py_o_median.
      bind_e (ratios_to_fastest py_s_avg (n_avg napi_startup) wasi_startup_avg)
        (\<lambda>(py_startup_ratio, napi_startup_ratio, wasi_startup_ratio).
      bind_e (ratios_to_fastest py_o_avg (n_avg napi_ops) wasi_ops_avg)
        (\<lambda>(py_ops_ratio, napi_ops_ratio, wasi_ops_ratio).
      Inr [Heading ''STARTUP PERFORMANCE (ms)'',
           Row ''Average'' py_s_avg (n_avg napi_startup) wasi_startup_avg
             (fastest_name py_s_avg (n_avg napi_startup) wasi_startup_avg),
           Row ''Median'' py_s_median (n_median napi_startup) 1.059
             (fastest_name py_s_median (n_median napi_startup) 1.059),
           Row ''95th percentile'' py_s_p95 (n_p95 napi_startup) 1.996
             (fastest_name py_s_p95 (n_p95 napi_startup) 1.996),
           Heading ''OPERATION PERFORMANCE (ms)'',
           Row ''Average'' py_o_avg (n_avg napi_ops) wasi_ops_avg
             (fastest_name py_o_avg (n_avg napi_ops) wasi_ops_avg),
           Row ''Median'' py_o_median (n_median napi_ops) 0.230
             (fastest_name py_o_median (n_median napi_ops) 0.230),
           Heading ''PERFORMANCE RATIOS (relative to fastest)'',
           Ratios ''Startup speed'' py_startup_ratio napi_startup_ratio wasi_startup_ratio,
           Ratios ''Operation speed'' py_ops_ratio napi_ops_ratio wasi_ops_ratio]))))))))))"

definition print_comprehensive_results ::
    "py_results option \<Rightarrow> nodejs_dict option \<Rightarrow> error + line list" where
  "print_comprehensive_results python_results nodejs_results =
     bind_e (case nodejs_results of
               None \<Rightarrow> Inr None
             | Some d \<Rightarrow> if truthy nodejs_results
                          then bind_e (node_file_size_kb d) (\<lambda>kb. Inr (Some kb))
                          else Inr None) (\<lambda>napi_kb.
     bind_e (case (python_results, nodejs_results) of
               (Some p, Some d) \<Rightarrow> if truthy nodejs_results then comparison p d else Inr []
             | _ \<Rightarrow> Inr []) (\<lambda>compared.
     Inr ([Heading ''FILE SIZES'',
           FileSize ''Python (.so)'' (map_option file_size_kb python_results),
           FileSize ''NAPI (.node)'' napi_kb,
           FileSize ''WASI (.wasm)'' (Some 50)]
          @ compared
          @ [Heading ''TECHNOLOGY COMPARISON SUMMARY'',
             Heading ''USE CASE RECOMMENDATIONS''])))"

definition main :: "bool \<Rightarrow> (nat \<Rightarrow> int) \<Rightarrow> nodejs_dict option \<Rightarrow> error + line list" where
  "main PYTHON_AVAILABLE clk nodejs_results =
     bind_e (if PYTHON_AVAILABLE then run_benchmark PYTHON_AVAILABLE clk else Inr None)
       (\<lambda>python_results.
     bind_e (print_comprehensive_results python_results nodejs_results) (\<lambda>report.
     Inr (report @ [Heading ''Comprehensive benchmark complete!'']
          @ (if python_results = None then [Hint ''To test Python performance''] else []))))"

section \<open>The speed ranking of \<^verbatim>\<open>benchmark_python\<close> (simple_python_benchmark.py)\<close>

text \<open>
  \<^verbatim>\<open>results.sort(key=lambda x: x[1])\<close> on the three (name, time) pairs;
  \<open>python_avg\<close> is \<^verbatim>\<open>operation_stats["avg"]\<close>. Python's sort is stable, as is
  \<^const>\<open>sort_key\<close>.
\<close>

definition speed_rankings :: "real \<Rightarrow> (string \<times> real) list" where
  "speed_rankings python_avg =
     sort_key snd [(''NAPI'', 0.001206), (''Python'', python_avg), (''WASI'', 0.396)]"

section \<open>The specification's percentile and standard deviation\<close>

text \<open>
  These two follow the words of the specification, to be compared with what the code
  computes: "sort ascending, index = floor(p * n) clamped to n - 1", and the
  population standard deviation, which divides by \<open>n\<close>.
\<close>

definition spec_percentile :: "real list \<Rightarrow> real \<Rightarrow> real" where
  "spec_percentile xs p =
     sort xs ! min (nat \<lfloor>p * real (length xs)\<rfloor>) (length xs - 1)"

definition spec_population_stddev :: "real list \<Rightarrow> real" where
  "spec_population_stddev xs =
     (let n = real (length xs); m = sum_list xs / n
      in sqrt (sum_list (map (\<lambda>x. (x - m) ^ 2) xs) / n))"

section \<open>Results of the statistics functions on a non-empty list\<close>

lemma py_int_pct: "py_int (real n * (real p / 100)) = int ((n * p) div 100)"
proof -
  have "real n * (real p / 100) = real (n * p) / real 100" by simp
  then have "\<lfloor>real n * (real p / 100)\<rfloor> = int ((n * p) div 100)"
    by (simp only: floor_divide_of_nat_eq)
  then show ?thesis by (simp add: py_int_def)
qed

lemma py_int_95: "py_int (real n * 0.95) = int ((n * 95) div 100)"
  using py_int_pct[of n 95] by simp

lemma py_int_99: "py_int (real n * 0.99) = int ((n * 99) div 100)"
  using py_int_pct[of n 99] by simp

lemma idx_lt: "0 < n \<Longrightarrow> p < 100 \<Longrightarrow> (n * p) div 100 < (n::nat)"
  by (rule less_mult_imp_div_less) simp

lemma sort_ne: "xs \<noteq> [] \<Longrightarrow> sort xs \<noteq> []"
  using length_sort[of "\<lambda>x. x" xs] by (metis length_0_conv)

lemma index_py_nat: "k < length xs \<Longrightarrow> index_py xs (int k) = Inr (xs ! k)"
  by (simp add: index_py_def)

lemma lookup_95: "xs \<noteq> [] \<Longrightarrow>
  index_py xs (py_int (real (length xs) * 0.95)) = Inr (xs ! ((length xs * 95) div 100))"
  by (simp only: py_int_95, rule index_py_nat, rule idx_lt) simp_all

lemma lookup_99: "xs \<noteq> [] \<Longrightarrow>
  index_py xs (py_int (real (length xs) * 0.99)) = Inr (xs ! ((length xs * 99) div 100))"
  by (simp only: py_int_99, rule index_py_nat, rule idx_lt) simp_all

lemma py_min_Min: "xs \<noteq> [] \<Longrightarrow> py_min xs = Inr (Min (set xs))"
proof (cases xs)
  case (Cons a rest)
  then show ?thesis using Min.set_eq_fold[of a rest] by (simp add: py_min_def)
qed simp

lemma py_max_Max: "xs \<noteq> [] \<Longrightarrow> py_max xs = Inr (Max (set xs))"
proof (cases xs)
  case (Cons a rest)
  then show ?thesis using Max.set_eq_fold[of a rest] by (simp add: py_max_def)
qed simp

lemma mean_nonempty: "xs \<noteq> [] \<Longrightarrow> mean xs = Inr (sum_list xs / real (length xs))"
  by (simp add: mean_def)

lemma median_eq: "xs \<noteq> [] \<Longrightarrow> median xs =
    Inr (if length xs mod 2 = 1 then sort xs ! (length xs div 2)
         else (sort xs ! (length xs div 2 - 1) + sort xs ! (length xs div 2)) / 2)"
  by (simp add: median_def Let_def sort_ne)

lemma median_nonempty: "xs \<noteq> [] \<Longrightarrow> \<exists>m. median xs = Inr m"
  using median_eq by blast

lemma stdev_two: "1 < length xs \<Longrightarrow> \<exists>d. stdev xs = Inr d"
  by (simp add: stdev_def Let_def)

lemma calculate_stats_fields:
  assumes ne: "h ! r \<noteq> []" and ms: "ms = sort (map (\<lambda>t. t / 1000000) (h ! r))"
  shows "\<exists>s. calculate_stats h r = (h @ [ms], Inr (Some s)) \<and> count s = length ms
    \<and> py_min ms = Inr (min_ms s) \<and> py_max ms = Inr (max_ms s) \<and> mean ms = Inr (avg s)
    \<and> median ms = Inr (median_ms s)
    \<and> p95 s = ms ! ((length ms * 95) div 100) \<and> p99 s = ms ! ((length ms * 99) div 100)
    \<and> (if 1 < length ms then stdev ms = Inr (stddev s) else stddev s = 0)"
proof -
  have mne: "ms \<noteq> []" using ne ms sort_ne by auto
  obtain md where md: "median ms = Inr md" using median_nonempty[OF mne] by blast
  obtain sd where sd: "(if 1 < length ms then stdev ms = Inr sd else sd = 0)"
    using stdev_two[of ms] by (cases "1 < length ms") auto
  have pos: "0 < length ms" using mne by simp
  have st: "(if 1 < length ms then stdev ms else Inr 0) = Inr sd"
    using sd by (simp split: if_splits)
  have q95: "(if 0 < length ms then index_py ms (py_int (real (length ms) * 0.95)) else Inr 0)
      = Inr (ms ! ((length ms * 95) div 100))"
    by (simp only: pos if_True lookup_95[OF mne])
  have q99: "(if 0 < length ms then index_py ms (py_int (real (length ms) * 0.99)) else Inr 0)
      = Inr (ms ! ((length ms * 99) div 100))"
    by (simp only: pos if_True lookup_99[OF mne])
  have hp: "(h @ [map (\<lambda>t. t / 1000000) (h ! r)])
      [length h := sort (map (\<lambda>t. t / 1000000) (h ! r))] = h @ [ms]"
    by (simp add: ms)
  have "calculate_stats h r = (h @ [ms], Inr (Some \<lparr>count = length ms, min_ms = Min (set ms),
      max_ms = Max (set ms), avg = sum_list ms / real (length ms), median_ms = md,
      p95 = ms ! ((length ms * 95) div 100), p99 = ms ! ((length ms * 99) div 100),
      stddev = sd\<rparr>))"
    by (simp only: calculate_stats_def alloc_def Let_def prod.case hp nth_append_length
        ne if_False q95 q99 st md py_min_Min[OF mne] py_max_Max[OF mne] mean_nonempty[OF mne]
        bind_e_def sum.case)
  moreover note sd md py_min_Min[OF mne] py_max_Max[OF mne] mean_nonempty[OF mne]
  ultimately show ?thesis by simp
qed

lemma calc_stats_fields:
  assumes r: "r < length h" and ne: "h ! r \<noteq> []" and ts: "ts = sort (h ! r)"
  shows "\<exists>s. calc_stats h r = (h[r := ts], Inr s)
    \<and> py_min ts = Inr (s_min s) \<and> py_max ts = Inr (s_max s) \<and> mean ts = Inr (s_avg s)
    \<and> median ts = Inr (s_median s)
    \<and> s_p95 s = ts ! ((length ts * 95) div 100) \<and> s_p99 s = ts ! ((length ts * 99) div 100)"
proof -
  have mne: "ts \<noteq> []" using ne ts sort_ne by auto
  obtain md where md: "median ts = Inr md" using median_nonempty[OF mne] by blast
  have pos: "0 < length ts" using mne by simp
  have q95: "(if 0 < length ts then index_py ts (py_int (real (length ts) * 0.95)) else Inr 0)
      = Inr (ts ! ((length ts * 95) div 100))"
    by (simp only: pos if_True lookup_95[OF mne])
  have q99: "(if 0 < length ts then index_py ts (py_int (real (length ts) * 0.99)) else Inr 0)
      = Inr (ts ! ((length ts * 99) div 100))"
    by (simp only: pos if_True lookup_99[OF mne])
  have hp: "h[r := ts] ! r = ts"
    using r by simp
  have "calc_stats h r = (h[r := ts], Inr \<lparr>s_min = Min (set ts),
      s_max = Max (set ts), s_avg = sum_list ts / real (length ts), s_median = md,
      s_p95 = ts ! ((length ts * 95) div 100), s_p99 = ts ! ((length ts * 99) div 100)\<rparr>)"
    by (simp only: calc_stats_def Let_def hp q95 q99 md py_min_Min[OF mne] py_max_Max[OF mne]
        mean_nonempty[OF mne] bind_e_def sum.case ts[symmetric])
  moreover note md py_min_Min[OF mne] py_max_Max[OF mne] mean_nonempty[OF mne]
  ultimately show ?thesis by simp
qed


section \<open>Percentiles\<close>

lemma spec_index: "0 < n \<Longrightarrow> p < 100 \<Longrightarrow>
  min (nat \<lfloor>(real p / 100) * real n\<rfloor>) (n - 1) = (n * p) div 100"
proof -
  assume n: "0 < n" and p: "p < 100"
  have "real p / 100 * real n = real (n * p) / real 100" by simp
  then have "\<lfloor>real p / 100 * real n\<rfloor> = int ((n * p) div 100)"
    by (simp only: floor_divide_of_nat_eq)
  then have "nat \<lfloor>real p / 100 * real n\<rfloor> = (n * p) div 100" by simp
  moreover have "(n * p) div 100 < n" using n p by (rule idx_lt)
  ultimately show ?thesis by simp
qed

lemma spec_percentile_95: "xs \<noteq> [] \<Longrightarrow>
  spec_percentile xs 0.95 = sort xs ! ((length xs * 95) div 100)"
  using spec_index[of "length xs" 95] by (simp add: spec_percentile_def)

lemma spec_percentile_99: "xs \<noteq> [] \<Longrightarrow>
  spec_percentile xs 0.99 = sort xs ! ((length xs * 99) div 100)"
  using spec_index[of "length xs" 99] by (simp add: spec_percentile_def)

text \<open>
  C1: for a non-empty sample list, \<open>p95\<close> and \<open>p99\<close> of both statistics functions
  are the elements of the ascending sort at index \<open>floor (p * n)\<close> clamped to
  \<open>n - 1\<close>.
\<close>

theorem percentile_is_sorted_element:
  assumes "r < length h" and "h ! r \<noteq> []"
  shows "\<exists>s t. snd (calculate_stats h r) = Inr (Some s) \<and> snd (calc_stats h r) = Inr t
    \<and> p95 s = spec_percentile (map (\<lambda>t. t / 1000000) (h ! r)) 0.95
    \<and> p99 s = spec_percentile (map (\<lambda>t. t / 1000000) (h ! r)) 0.99
    \<and> s_p95 t = spec_percentile (h ! r) 0.95
    \<and> s_p99 t = spec_percentile (h ! r) 0.99"
proof -
  let ?ms = "map (\<lambda>t. t / 1000000) (h ! r)"
  have mne: "?ms \<noteq> []" using assms(2) by simp
  obtain s where s: "calculate_stats h r = (h @ [sort ?ms], Inr (Some s))"
    "p95 s = sort ?ms ! ((length (sort ?ms) * 95) div 100)"
    "p99 s = sort ?ms ! ((length (sort ?ms) * 99) div 100)"
    using calculate_stats_fields[OF assms(2) refl] by blast
  obtain t where t: "calc_stats h r = (h[r := sort (h ! r)], Inr t)"
    "s_p95 t = sort (h ! r) ! ((length (sort (h ! r)) * 95) div 100)"
    "s_p99 t = sort (h ! r) ! ((length (sort (h ! r)) * 99) div 100)"
    using calc_stats_fields[OF assms refl] by blast
  show ?thesis
    using s t spec_percentile_95[OF mne] spec_percentile_99[OF mne]
      spec_percentile_95[OF assms(2)] spec_percentile_99[OF assms(2)]
    by simp
qed


theorem percentile_is_sorted_element_witness:
  "\<exists>s t. snd (calculate_stats [[3000000, 1000000, 2000000]] 0) = Inr (Some s)
    \<and> snd (calc_stats [[3000000, 1000000, 2000000]] 0) = Inr t
    \<and> p95 s = 3 \<and> p99 s = 3 \<and> s_p95 t = 3000000 \<and> s_p99 t = 3000000"
  using percentile_is_sorted_element[of 0 "[[3000000, 1000000, 2000000]]"]
  by (simp add: spec_percentile_def)

section \<open>Order of the summary fields\<close>

lemma sorted_Min_le_nth: "k < length xs \<Longrightarrow> Min (set xs) \<le> xs ! k"
  by simp

lemma sorted_nth_le_Max: "k < length xs \<Longrightarrow> xs ! k \<le> Max (set xs)"
  by simp

lemma median_between:
  assumes "xs \<noteq> []" and "median xs = Inr m"
  shows "Min (set xs) \<le> m \<and> m \<le> Max (set xs)"
proof -
  let ?d = "sort xs" and ?n = "length xs"
  have n: "0 < ?n" using assms(1) by simp
  have len: "length ?d = ?n" by simp
  have st: "set ?d = set xs" by simp
  have mid: "?n div 2 < length ?d" using n by simp
  have lo: "?n div 2 - 1 < length ?d" using n by (simp add: less_imp_diff_less)
  have b1: "Min (set xs) \<le> ?d ! (?n div 2)" "?d ! (?n div 2) \<le> Max (set xs)"
    using sorted_Min_le_nth[OF mid] sorted_nth_le_Max[OF mid] by (simp_all only: st)
  have b2: "Min (set xs) \<le> ?d ! (?n div 2 - 1)" "?d ! (?n div 2 - 1) \<le> Max (set xs)"
    using sorted_Min_le_nth[OF lo] sorted_nth_le_Max[OF lo] by (simp_all only: st)
  show ?thesis
  proof (cases "?n mod 2 = 1")
    case True
    then have "m = ?d ! (?n div 2)" using assms median_eq[OF assms(1)] by simp
    then show ?thesis using b1 by simp
  next
    case False
    then have "m = (?d ! (?n div 2 - 1) + ?d ! (?n div 2)) / 2"
      using assms median_eq[OF assms(1)] by simp
    then show ?thesis using b1 b2 by simp
  qed
qed

text \<open>
  C2: for a non-empty sample list \<^verbatim>\<open>calculate_stats\<close> returns a summary whose count
  is the length of the list, with min \<open>\<le>\<close> median \<open>\<le>\<close> max and p95 \<open>\<le>\<close> p99.
\<close>

theorem summary_order:
  assumes "h ! r \<noteq> []"
  shows "\<exists>s. snd (calculate_stats h r) = Inr (Some s) \<and> count s = length (h ! r)
    \<and> min_ms s \<le> median_ms s \<and> median_ms s \<le> max_ms s \<and> p95 s \<le> p99 s"
proof -
  let ?ms = "sort (map (\<lambda>t. t / 1000000) (h ! r))"
  have mne: "?ms \<noteq> []" using assms by (intro sort_ne) simp
  obtain s where s: "calculate_stats h r = (h @ [?ms], Inr (Some s))"
    "count s = length ?ms" "py_min ?ms = Inr (min_ms s)" "py_max ?ms = Inr (max_ms s)"
    "median ?ms = Inr (median_ms s)"
    "p95 s = ?ms ! ((length ?ms * 95) div 100)"
    "p99 s = ?ms ! ((length ?ms * 99) div 100)"
    using calculate_stats_fields[OF assms refl] by blast
  have mn: "min_ms s = Min (set ?ms)" using s(3) py_min_Min[OF mne] by simp
  have mx: "max_ms s = Max (set ?ms)" using s(4) py_max_Max[OF mne] by simp
  have md: "min_ms s \<le> median_ms s \<and> median_ms s \<le> max_ms s"
    using median_between[OF mne s(5)] mn mx by simp
  have "(length ?ms * 95) div 100 \<le> (length ?ms * 99) div 100"
    by (rule div_le_mono) simp
  moreover have "(length ?ms * 99) div 100 < length ?ms"
    using assms by (intro idx_lt) simp_all
  ultimately have "p95 s \<le> p99 s"
    unfolding s(6) s(7) by (intro sorted_nth_mono) simp_all
  then show ?thesis using s(1) s(2) md by simp
qed

theorem summary_order_witness:
  "\<exists>s. snd (calculate_stats [[3000000, 1000000, 2000000]] 0) = Inr (Some s)
    \<and> count s = 3
    \<and> min_ms s \<le> median_ms s \<and> median_ms s \<le> max_ms s \<and> p95 s \<le> p99 s"
  using summary_order[of "[[3000000, 1000000, 2000000]]" 0] by (simp add: numeral_3_eq_3)

section \<open>The empty sample list\<close>

text \<open>
  C4 as stated fails: on an empty sample list \<^verbatim>\<open>calculate_stats\<close> does not fail.
  It raises nothing and returns \<^verbatim>\<open>None\<close> as an ordinary result.
\<close>

theorem empty_list_returns_none_counterexample:
  "calculate_stats [[]] 0 = ([[]], Inr None) \<and> \<not> isl (snd (calculate_stats [[]] 0))"
  by (simp add: calculate_stats_def)

text \<open>
  C4, amended: on an empty sample list \<^verbatim>\<open>calculate_stats\<close> returns \<^verbatim>\<open>None\<close>, without
  raising an error, and not a summary (zero-filled or other); the store is left as it
  was.
\<close>

theorem empty_list_no_summary:
  "h ! r = [] \<Longrightarrow> calculate_stats h r = (h, Inr None)"
  by (simp add: calculate_stats_def)

theorem empty_list_no_summary_witness:
  "[[5], []] ! 1 = ([]::real list) \<and> calculate_stats [[5], []] 1 = ([[5], []], Inr None)"
  using empty_list_no_summary[of "[[5], []]" 1] by simp

section \<open>The percentile look-ups stay in range\<close>

lemma calc_stats_empty: "h ! r = [] \<Longrightarrow> calc_stats h r = (h[r := []], Inl ValueError)"
proof -
  assume e: "h ! r = []"
  have "h[r := []] ! r = []"
    using e by (cases "r < length h") (simp_all add: list_update_beyond)
  then show ?thesis
    using e by (simp add: calc_stats_def Let_def py_min_def bind_e_def)
qed

text \<open>
  C10: the look-ups \<^verbatim>\<open>times[int(n * 0.95)]\<close> and \<^verbatim>\<open>times[int(n * 0.99)]\<close> never
  leave the list. An empty list does not reach them (\<^verbatim>\<open>calculate_stats\<close> has
  returned \<^verbatim>\<open>None\<close>, in \<^verbatim>\<open>calc_stats\<close> \<^verbatim>\<open>min\<close> has raised); on a non-empty list
  \<open>n\<close> is positive, so the \<^verbatim>\<open>else 0\<close> branches are not taken, both indices lie in
  \<open>0..n - 1\<close> and both functions return the elements found there.
\<close>

theorem percentile_lookup_in_bounds:
  assumes "r < length h"
  shows "if h ! r = []
         then snd (calculate_stats h r) = Inr None \<and> snd (calc_stats h r) = Inl ValueError
         else 0 < length (h ! r)
           \<and> 0 \<le> py_int (real (length (h ! r)) * 0.95)
           \<and> py_int (real (length (h ! r)) * 0.95) < int (length (h ! r))
           \<and> 0 \<le> py_int (real (length (h ! r)) * 0.99)
           \<and> py_int (real (length (h ! r)) * 0.99) < int (length (h ! r))
           \<and> (\<exists>s. snd (calculate_stats h r) = Inr (Some s)
                \<and> p95 s = sort (map (\<lambda>t. t / 1000000) (h ! r))
                            ! nat (py_int (real (length (h ! r)) * 0.95))
                \<and> p99 s = sort (map (\<lambda>t. t / 1000000) (h ! r))
                            ! nat (py_int (real (length (h ! r)) * 0.99)))
           \<and> (\<exists>t. snd (calc_stats h r) = Inr t
                \<and> s_p95 t = sort (h ! r) ! nat (py_int (real (length (h ! r)) * 0.95))
                \<and> s_p99 t = sort (h ! r) ! nat (py_int (real (length (h ! r)) * 0.99)))"
proof (cases "h ! r = []")
  case True
  then show ?thesis
    by (simp add: calc_stats_empty calculate_stats_def)
next
  case False
  let ?n = "length (h ! r)"
  have n: "0 < ?n" using False by simp
  have i95: "py_int (real ?n * 0.95) = int ((?n * 95) div 100)" by (rule py_int_95)
  have i99: "py_int (real ?n * 0.99) = int ((?n * 99) div 100)" by (rule py_int_99)
  have b95: "(?n * 95) div 100 < ?n" using n by (rule idx_lt) simp
  have b99: "(?n * 99) div 100 < ?n" using n by (rule idx_lt) simp
  obtain s where s: "calculate_stats h r
        = (h @ [sort (map (\<lambda>t. t / 1000000) (h ! r))], Inr (Some s))"
    "p95 s = sort (map (\<lambda>t. t / 1000000) (h ! r))
        ! ((length (sort (map (\<lambda>t. t / 1000000) (h ! r))) * 95) div 100)"
    "p99 s = sort (map (\<lambda>t. t / 1000000) (h ! r))
        ! ((length (sort (map (\<lambda>t. t / 1000000) (h ! r))) * 99) div 100)"
    using calculate_stats_fields[OF False refl] by blast
  obtain t where t: "calc_stats h r = (h[r := sort (h ! r)], Inr t)"
    "s_p95 t = sort (h ! r) ! ((length (sort (h ! r)) * 95) div 100)"
    "s_p99 t = sort (h ! r) ! ((length (sort (h ! r)) * 99) div 100)"
    using calc_stats_fields[OF assms False refl] by blast
  have "\<exists>s. snd (calculate_stats h r) = Inr (Some s)
      \<and> p95 s = sort (map (\<lambda>t. t / 1000000) (h ! r)) ! nat (py_int (real ?n * 0.95))
      \<and> p99 s = sort (map (\<lambda>t. t / 1000000) (h ! r)) ! nat (py_int (real ?n * 0.99))"
    using s by (simp only: i95 i99 nat_int) simp
  moreover have "\<exists>t. snd (calc_stats h r) = Inr t
      \<and> s_p95 t = sort (h ! r) ! nat (py_int (real ?n * 0.95))
      \<and> s_p99 t = sort (h ! r) ! nat (py_int (real ?n * 0.99))"
    using t by (simp only: i95 i99 nat_int) simp
  moreover have "0 \<le> py_int (real ?n * 0.95) \<and> py_int (real ?n * 0.95) < int ?n"
    using b95 by (simp only: i95) simp
  moreover have "0 \<le> py_int (real ?n * 0.99) \<and> py_int (real ?n * 0.99) < int ?n"
    using b99 by (simp only: i99) simp
  ultimately show ?thesis using False n by (simp only: if_False)
qed

theorem percentile_lookup_in_bounds_witness:
  "0 < length [3, 1, 2 :: real]
   \<and> py_int (real (length [3, 1, 2 :: real]) * 0.95) = 2
   \<and> py_int (real (length [3, 1, 2 :: real]) * 0.99) = 2
   \<and> (\<exists>s. snd (calculate_stats [[3, 1, 2]] 0) = Inr (Some s)
        \<and> p95 s = 3 / 1000000 \<and> p99 s = 3 / 1000000)
   \<and> (\<exists>t. snd (calc_stats [[3, 1, 2]] 0) = Inr t \<and> s_p95 t = 3 \<and> s_p99 t = 3)"
  using percentile_lookup_in_bounds[of 0 "[[3, 1, 2]]"]
  by (simp add: py_int_def)



section \<open>The standard deviation\<close>

lemma sum_list_map_insort:
  "sum_list (map f (insort x ys)) = (f x :: real) + sum_list (map f ys)"
  by (induction ys) simp_all

lemma sum_list_map_sort: "sum_list (map f (sort xs)) = (sum_list (map f xs) :: real)"
  by (induction xs) (simp_all add: sum_list_map_insort)

lemma stdev_square:
  assumes "1 < length xs" and "stdev xs = Inr d"
  shows "0 \<le> d \<and> d ^ 2 * real (length xs - 1)
           = sum_list (map (\<lambda>x. (x - sum_list xs / real (length xs)) ^ 2) xs)"
proof -
  let ?m = "sum_list xs / real (length xs)"
  let ?ss = "sum_list (map (\<lambda>x. (x - ?m) ^ 2) xs)"
  have d: "d = sqrt (?ss / real (length xs - 1))"
    using assms by (simp add: stdev_def Let_def)
  have "0 \<le> ?ss" by (rule sum_list_nonneg) auto
  then have nn: "0 \<le> ?ss / real (length xs - 1)" by simp
  have "d ^ 2 = ?ss / real (length xs - 1)"
    unfolding d using nn by (rule real_sqrt_pow2)
  moreover have "real (length xs - 1) \<noteq> 0" using assms(1) by simp
  ultimately have "d ^ 2 * real (length xs - 1) = ?ss" by simp
  moreover have "0 \<le> d" unfolding d using nn by simp
  ultimately show ?thesis by simp
qed

text \<open>
  C3 as stated fails: on the samples 0, 1 and 2 ms the reported standard deviation is
  1, the population standard deviation is \<open>sqrt (2 / 3)\<close>.
\<close>

theorem stddev_population_counterexample:
  "snd (calculate_stats [[0, 1000000, 2000000]] 0)
     = Inr (Some \<lparr>count = 3, min_ms = 0, max_ms = 2, avg = 1, median_ms = 1,
                  p95 = 2, p99 = 2, stddev = 1\<rparr>)
   \<and> spec_population_stddev (map (\<lambda>t. t / 1000000) [0, 1000000, 2000000]) \<noteq> 1"
  by (simp add: calculate_stats_def alloc_def Let_def bind_e_def py_min_def py_max_def
      mean_def median_def index_py_def py_int_def stdev_def spec_population_stddev_def
      numeral_3_eq_3)

text \<open>
  C3, amended: for \<open>n \<ge> 2\<close> samples the reported standard deviation is the sample
  standard deviation: it is non-negative and its square times \<open>n - 1\<close> is the sum of
  the squared deviations of the millisecond values from their mean.
\<close>

theorem stddev_is_sample_stddev:
  assumes "2 \<le> length (h ! r)"
  shows "\<exists>s. snd (calculate_stats h r) = Inr (Some s)
    \<and> avg s = sum_list (map (\<lambda>t. t / 1000000) (h ! r)) / real (length (h ! r))
    \<and> 0 \<le> stddev s
    \<and> (stddev s) ^ 2 * real (length (h ! r) - 1)
        = sum_list (map (\<lambda>t. (t / 1000000 - avg s) ^ 2) (h ! r))"
proof -
  let ?ms = "sort (map (\<lambda>t. t / 1000000) (h ! r))"
  have ne: "h ! r \<noteq> []" using assms by auto
  have len: "length ?ms = length (h ! r)" by simp
  have two: "1 < length ?ms" using assms by simp
  obtain s where s: "calculate_stats h r = (h @ [?ms], Inr (Some s))"
    "mean ?ms = Inr (avg s)"
    "(if 1 < length ?ms then stdev ?ms = Inr (stddev s) else stddev s = 0)"
    using calculate_stats_fields[OF ne refl] by blast
  have sm: "sum_list ?ms = sum_list (map (\<lambda>t. t / 1000000) (h ! r))"
    using sum_list_map_sort[of "\<lambda>x. x" "map (\<lambda>t. t / 1000000) (h ! r)"] by simp
  have av: "avg s = sum_list (map (\<lambda>t. t / 1000000) (h ! r)) / real (length (h ! r))"
    using s(2) ne by (simp add: mean_def sort_ne sm)
  have sd: "stdev ?ms = Inr (stddev s)" using s(3) two by simp
  have sq: "0 \<le> stddev s \<and> (stddev s) ^ 2 * real (length ?ms - 1)
      = sum_list (map (\<lambda>x. (x - sum_list ?ms / real (length ?ms)) ^ 2) ?ms)"
    using stdev_square[OF two sd] .
  have "sum_list (map (\<lambda>x. (x - sum_list ?ms / real (length ?ms)) ^ 2) ?ms)
      = sum_list (map (\<lambda>x. (x - avg s) ^ 2) (map (\<lambda>t. t / 1000000) (h ! r)))"
    unfolding av sm len by (rule sum_list_map_sort)
  also have "\<dots> = sum_list (map (\<lambda>t. (t / 1000000 - avg s) ^ 2) (h ! r))"
    by (simp add: comp_def)
  finally show ?thesis using s(1) av sq by (simp only: len) simp
qed

theorem stddev_is_sample_stddev_witness:
  "\<exists>s. snd (calculate_stats [[0, 1000000, 2000000]] 0) = Inr (Some s)
    \<and> avg s = 1 \<and> 0 \<le> stddev s
    \<and> (stddev s) ^ 2 * 2 = (0 - avg s) ^ 2 + ((1 - avg s) ^ 2 + (2 - avg s) ^ 2)"
  using stddev_is_sample_stddev[of "[[0, 1000000, 2000000]]" 0] by simp

section \<open>What the statistics functions do to their argument\<close>

text \<open>
  C6 as stated fails for \<^verbatim>\<open>calc_stats\<close>: given the list 3, 1, 2 it leaves 1, 2, 3 in
  the caller's list.
\<close>

theorem calc_stats_sorts_in_place_counterexample:
  "fst (calc_stats [[3, 1, 2]] 0) = [[1, 2, 3]]
   \<and> fst (calc_stats [[3, 1, 2]] 0) ! 0 \<noteq> [[3, 1, 2]] ! 0"
  by (simp add: calc_stats_def Let_def)

text \<open>
  C6, amended: \<^verbatim>\<open>calculate_stats\<close> leaves every list that existed before the call
  as it was, its argument included (the sorted list is a new object);
  \<^verbatim>\<open>calc_stats\<close> sorts its argument in place and changes no other list.
\<close>

theorem input_list_after_statistics:
  assumes "r < length h"
  shows "take (length h) (fst (calculate_stats h r)) = h
    \<and> fst (calculate_stats h r) ! r = h ! r
    \<and> fst (calc_stats h r) = h[r := sort (h ! r)]
    \<and> fst (calc_stats h r) ! r = sort (h ! r)"
proof -
  have "fst (calculate_stats h r) = h \<or> (\<exists>ms. fst (calculate_stats h r) = h @ [ms])"
    by (simp add: calculate_stats_def alloc_def Let_def)
  then have "take (length h) (fst (calculate_stats h r)) = h
      \<and> fst (calculate_stats h r) ! r = h ! r"
    using assms by (auto simp: nth_append)
  moreover have "fst (calc_stats h r) = h[r := sort (h ! r)]"
    by (simp add: calc_stats_def Let_def)
  ultimately show ?thesis using assms by simp
qed

theorem input_list_after_statistics_witness:
  "take 1 (fst (calculate_stats [[3000000, 1000000, 2000000]] 0))
      = [[3000000, 1000000, 2000000]]
   \<and> fst (calculate_stats [[3000000, 1000000, 2000000]] 0) ! 0
      = [3000000, 1000000, 2000000]
   \<and> fst (calc_stats [[3, 1, 2]] 0) = [[1, 2, 3]]"
  using input_list_after_statistics[of 0 "[[3000000, 1000000, 2000000]]"]
    input_list_after_statistics[of 0 "[[3, 1, 2]]"]
  by simp



section \<open>Recorded durations\<close>

lemma measure_time_ns_nonneg:
  "mono clk \<Longrightarrow> 0 \<le> time_ns (fst (measure_time_ns clk tick))"
  by (simp add: measure_time_ns_def Let_def mono_def)

lemma measure_and_append_nonneg:
  assumes "mono clk" and "\<forall>l \<in> set h. \<forall>d \<in> set l. 0 \<le> d"
  shows "\<forall>l \<in> set (snd (measure_and_append clk r n (tick, h))). \<forall>d \<in> set l. 0 \<le> d"
  using assms(2)
proof (induction n arbitrary: tick h)
  case 0
  then show ?case by simp
next
  case (Suc n)
  let ?x = "time_ns (fst (measure_time_ns clk tick))"
  let ?h = "h[r := h ! r @ [?x]]"
  have x: "0 \<le> ?x" using assms(1) by (rule measure_time_ns_nonneg)
  have "\<forall>l \<in> set ?h. \<forall>d \<in> set l. 0 \<le> d"
  proof (cases "r < length h")
    case True
    then have "h ! r \<in> set h" by simp
    then have "\<forall>d \<in> set (h ! r @ [?x]). 0 \<le> d" using Suc.prems x by auto
    then show ?thesis
      using Suc.prems set_update_subset_insert[of h r "h ! r @ [?x]"] by blast
  next
    case False
    then show ?thesis using Suc.prems by (simp add: list_update_beyond)
  qed
  from Suc.IH[OF this] show ?case
    by (simp add: case_prod_unfold Let_def)
qed

lemma measure_and_append_shape:
  "r < length h \<Longrightarrow>
   length (snd (measure_and_append clk r n (tick, h))) = length h
   \<and> length (snd (measure_and_append clk r n (tick, h)) ! r) = length (h ! r) + n
   \<and> (\<forall>k. k \<noteq> r \<longrightarrow> snd (measure_and_append clk r n (tick, h)) ! k = h ! k)"
proof (induction n arbitrary: tick h)
  case 0
  then show ?case by simp
next
  case (Suc n)
  let ?x = "time_ns (fst (measure_time_ns clk tick))"
  let ?h = "h[r := h ! r @ [?x]]"
  have "r < length ?h" using Suc.prems by simp
  from Suc.IH[OF this, of "snd (measure_time_ns clk tick)"] show ?case
    using Suc.prems by (simp add: case_prod_unfold Let_def)
qed

lemma loops_shape:
  "length (snd (benchmark_python_operations clk m
      (benchmark_python_startup clk n (0, init_results)))) = 2
   \<and> length (snd (benchmark_python_operations clk m
      (benchmark_python_startup clk n (0, init_results))) ! startup_r) = n
   \<and> length (snd (benchmark_python_operations clk m
      (benchmark_python_startup clk n (0, init_results))) ! operations_r) = m"
proof -
  obtain t1 h1 where s1: "measure_and_append clk 0 n (0, [[], []]) = (t1, h1)"
    by (cases "measure_and_append clk 0 n (0, [[], []])")
  have a: "length h1 = 2 \<and> length (h1 ! 0) = n \<and> h1 ! 1 = []"
    using measure_and_append_shape[of 0 "[[], []]" clk n 0] s1 by simp
  then have "1 < length h1" by simp
  from measure_and_append_shape[OF this, of clk m t1] a
  show ?thesis
    by (simp add: benchmark_python_operations_def benchmark_python_startup_def
        init_results_def startup_r_def operations_r_def s1)
qed

text \<open>
  C9: with a monotonic clock every measured duration is non-negative, and so is every
  sample that the startup loop and the operations loop append to their lists.
\<close>

theorem recorded_durations_nonneg:
  assumes "mono clk"
  shows "0 \<le> time_ns (fst (measure_time_ns clk tick))
    \<and> (\<forall>d \<in> set (snd (benchmark_python_operations clk m
                        (benchmark_python_startup clk n (0, init_results))) ! startup_r)
              \<union> set (snd (benchmark_python_operations clk m
                        (benchmark_python_startup clk n (0, init_results))) ! operations_r).
          0 \<le> d)"
proof -
  obtain t1 h1 where s1: "benchmark_python_startup clk n (0, init_results) = (t1, h1)"
    by (cases "benchmark_python_startup clk n (0, init_results)")
  have "\<forall>l \<in> set init_results. \<forall>d \<in> set l. 0 \<le> d"
    by (simp add: init_results_def)
  from measure_and_append_nonneg[OF assms this, of startup_r n 0]
  have h1: "\<forall>l \<in> set h1. \<forall>d \<in> set l. 0 \<le> d"
    using s1 by (simp add: benchmark_python_startup_def)
  let ?h2 = "snd (benchmark_python_operations clk m (t1, h1))"
  have h2: "\<forall>l \<in> set ?h2. \<forall>d \<in> set l. 0 \<le> d"
    using measure_and_append_nonneg[OF assms h1, of operations_r m t1]
    by (simp add: benchmark_python_operations_def)
  have len: "length ?h2 = 2" using loops_shape[of clk m n] s1 by simp
  then have "?h2 ! startup_r \<in> set ?h2" "?h2 ! operations_r \<in> set ?h2"
    by (simp_all add: startup_r_def operations_r_def)
  then show ?thesis
    using h2 s1 measure_time_ns_nonneg[OF assms] by auto
qed

theorem recorded_durations_nonneg_witness:
  "mono (\<lambda>k. 7 * int k)
   \<and> time_ns (fst (measure_time_ns (\<lambda>k. 7 * int k) 4)) = 7
   \<and> snd (benchmark_python_operations (\<lambda>k. 7 * int k) (Suc (Suc (Suc 0)))
            (benchmark_python_startup (\<lambda>k. 7 * int k) (Suc (Suc 0)) (0, init_results)))
       = [[7, 7], [7, 7, 7]]"
  using recorded_durations_nonneg[of "\<lambda>k. 7 * int k" 4 "Suc (Suc (Suc 0))" "Suc (Suc 0)"]
  by (simp add: mono_def measure_time_ns_def benchmark_python_operations_def
      benchmark_python_startup_def init_results_def startup_r_def operations_r_def Let_def)


section \<open>The speed ranking\<close>

lemma label_order: "''NAPI'' < ''Python''" "''Python'' < ''WASI''" "''NAPI'' < ''WASI''"
  by (simp_all add: less_char_def)

text \<open>
  C8: the ranking is a function of the measured mean, it lists the three adapters in
  ascending order of mean time, and of two adapters with the same mean the one with
  the lexicographically smaller name comes first.
\<close>

theorem ranking_ascending_ties_by_label:
  "sorted_wrt (\<lambda>a b. snd a < snd b \<or> (snd a = snd b \<and> fst a < fst b))
     (speed_rankings python_avg)
   \<and> set (speed_rankings python_avg)
       = {(''NAPI'', 0.001206), (''Python'', python_avg), (''WASI'', 0.396)}
   \<and> length (speed_rankings python_avg) = 3"
  using label_order by (auto simp: speed_rankings_def)

theorem ranking_ascending_ties_by_label_witness:
  "speed_rankings 0.001206
     = [(''NAPI'', 0.001206), (''Python'', 0.001206), (''WASI'', 0.396)]
   \<and> sorted_wrt (\<lambda>a b. snd a < snd b \<or> (snd a = snd b \<and> fst a < fst b))
        (speed_rankings 0.001206)"
  using ranking_ascending_ties_by_label[of "0.001206"]
  by (simp add: speed_rankings_def)

lemma ranking_tie_with_wasi:
  "speed_rankings 0.396 = [(''NAPI'', 0.001206), (''Python'', 0.396), (''WASI'', 0.396)]"
  by (simp add: speed_rankings_def)

section \<open>Ratios to the fastest adapter\<close>

text \<open>
  C5 as stated fails: when the smallest mean is zero the first division raises
  ZeroDivisionError and no ratio is computed.
\<close>

theorem ratio_zero_mean_counterexample:
  "ratios_to_fastest 0 1 wasi_startup_avg = Inl ZeroDivisionError"
  by (simp add: ratios_to_fastest_def py_div_def bind_e_def wasi_startup_avg_def)

text \<open>
  C5, amended: when all three means are positive, each ratio is the adapter's mean
  divided by the smallest mean, every ratio is at least 1 and the ratio of an adapter
  whose mean is the smallest is exactly 1.
\<close>

theorem ratios_of_positive_means:
  assumes "0 < py" and "0 < napi" and "0 < wasi"
  shows "\<exists>a b c. ratios_to_fastest py napi wasi = Inr (a, b, c)
    \<and> a = py / min py (min napi wasi)
    \<and> b = napi / min py (min napi wasi)
    \<and> c = wasi / min py (min napi wasi)
    \<and> 1 \<le> a \<and> 1 \<le> b \<and> 1 \<le> c
    \<and> (py \<le> napi \<and> py \<le> wasi \<longrightarrow> a = 1)
    \<and> (napi \<le> py \<and> napi \<le> wasi \<longrightarrow> b = 1)
    \<and> (wasi \<le> py \<and> wasi \<le> napi \<longrightarrow> c = 1)"
proof -
  let ?f = "min py (min napi wasi)"
  have pos: "0 < ?f" using assms by simp
  have nz: "?f \<noteq> 0" using pos by linarith
  have r: "ratios_to_fastest py napi wasi = Inr (py / ?f, napi / ?f, wasi / ?f)"
    using nz by (simp add: ratios_to_fastest_def py_div_def bind_e_def Let_def)
  have "?f \<le> py" "?f \<le> napi" "?f \<le> wasi" by simp_all
  then have ge: "1 \<le> py / ?f" "1 \<le> napi / ?f" "1 \<le> wasi / ?f"
    using pos by (simp_all add: le_divide_eq_1_pos)
  have "py \<le> napi \<and> py \<le> wasi \<longrightarrow> py / ?f = 1" using assms by (auto simp: min_def)
  moreover have "napi \<le> py \<and> napi \<le> wasi \<longrightarrow> napi / ?f = 1"
    using assms by (auto simp: min_def)
  moreover have "wasi \<le> py \<and> wasi \<le> napi \<longrightarrow> wasi / ?f = 1"
    using assms by (auto simp: min_def)
  ultimately show ?thesis using r ge by simp
qed

theorem ratios_of_positive_means_witness:
  "ratios_to_fastest 2 1 4 = Inr (2, 1, 4)"
  using ratios_of_positive_means[of 2 1 4] by simp



section \<open>A run with an adapter that is not available\<close>

lemma calculate_stats_Some:
  "h ! r \<noteq> [] \<Longrightarrow> \<exists>ms s. calculate_stats h r = (h @ [ms], Inr (Some s))"
  using calculate_stats_fields[of h r, OF _ refl] by blast

lemma run_benchmark_available:
  "\<exists>ss os. run_benchmark True clk
     = Inr (Some \<lparr>startup = Some ss, operations = Some os, file_size_kb = 681\<rparr>)"
proof -
  obtain tick h where l: "benchmark_python_operations clk 1000
      (benchmark_python_startup clk 50 (0, init_results)) = (tick, h)"
    by (cases "benchmark_python_operations clk 1000
      (benchmark_python_startup clk 50 (0, init_results))")
  have sh: "length h = 2" "length (h ! startup_r) = 50" "length (h ! operations_r) = 1000"
    using loops_shape[of clk 1000 50] l by simp_all
  have "h ! startup_r \<noteq> []" using sh(2) by auto
  then obtain ms ss where c1: "calculate_stats h startup_r = (h @ [ms], Inr (Some ss))"
    using calculate_stats_Some by blast
  have "(h @ [ms]) ! operations_r = h ! operations_r"
    using sh(1) by (simp add: operations_r_def nth_append)
  then have "(h @ [ms]) ! operations_r \<noteq> []" using sh(3) by auto
  then obtain ms' os where c2:
    "calculate_stats (h @ [ms]) operations_r = (h @ [ms] @ [ms'], Inr (Some os))"
    using calculate_stats_Some[of "h @ [ms]" operations_r] by auto
  show ?thesis
    by (simp add: run_benchmark_def Let_def l c1 c2 bind_e_def)
qed

text \<open>With the Python binding at hand \<^verbatim>\<open>run_benchmark\<close> returns its results.\<close>

lemma run_benchmark_has_results:
  "\<not> isl (run_benchmark True clk) \<and> run_benchmark True clk \<noteq> Inr None"
  using run_benchmark_available[of clk] by auto

lemma main_without_nodejs_results:
  assumes "nodejs_results = None \<or> nodejs_results = Some NapiEmpty"
  shows "main True clk nodejs_results
    = Inr [Heading ''FILE SIZES'',
           FileSize ''Python (.so)'' (Some 681),
           FileSize ''NAPI (.node)'' None,
           FileSize ''WASI (.wasm)'' (Some 50),
           Heading ''TECHNOLOGY COMPARISON SUMMARY'',
           Heading ''USE CASE RECOMMENDATIONS'',
           Heading ''Comprehensive benchmark complete!'']"
proof -
  obtain ss os where rb: "run_benchmark True clk
      = Inr (Some \<lparr>startup = Some ss, operations = Some os, file_size_kb = 681\<rparr>)"
    using run_benchmark_available by blast
  show ?thesis
    using assms rb by (auto simp: main_def print_comprehensive_results_def bind_e_def)
qed

text \<open>
  C7 as stated fails: when the Node.js benchmark returns \<^verbatim>\<open>None\<close>, the Python
  benchmark has run and has its results, and the report holds the file size of the
  Python binding and none of its startup or operation statistics.
\<close>

theorem one_adapter_unavailable_counterexample:
  "\<not> isl (run_benchmark True int) \<and> run_benchmark True int \<noteq> Inr None
   \<and> main True int None
       = Inr [Heading ''FILE SIZES'',
              FileSize ''Python (.so)'' (Some 681),
              FileSize ''NAPI (.node)'' None,
              FileSize ''WASI (.wasm)'' (Some 50),
              Heading ''TECHNOLOGY COMPARISON SUMMARY'',
              Heading ''USE CASE RECOMMENDATIONS'',
              Heading ''Comprehensive benchmark complete!'']"
  using run_benchmark_has_results[of int] main_without_nodejs_results[of None int]
  by simp

text \<open>
  When the add-on fails to load inside the Node.js script, the dictionary
  \<^verbatim>\<open>{"error": message}\<close> is true but has no \<^verbatim>\<open>file_size_kb\<close>: the run ends with
  KeyError. The amended claim below does not cover this case.
\<close>

lemma napi_load_error_aborts:
  "main PYTHON_AVAILABLE clk (Some (NapiError msg)) = Inl KeyError"
proof (cases PYTHON_AVAILABLE)
  case True
  obtain ss os where rb: "run_benchmark True clk
      = Inr (Some \<lparr>startup = Some ss, operations = Some os, file_size_kb = 681\<rparr>)"
    using run_benchmark_available by blast
  show ?thesis
    using True rb by (simp add: main_def print_comprehensive_results_def bind_e_def)
next
  case False
  then show ?thesis
    by (simp add: main_def print_comprehensive_results_def bind_e_def)
qed

text \<open>With both results present the report has the comparison rows and the ratios.\<close>

lemma both_available_report_example:
  "print_comprehensive_results
     (Some \<lparr>startup = Some \<lparr>count = 1, min_ms = 2, max_ms = 2, avg = 2, median_ms = 2,
                                p95 = 2, p99 = 2, stddev = 0\<rparr>,
             operations = Some \<lparr>count = 1, min_ms = 2, max_ms = 2, avg = 2, median_ms = 2,
                                   p95 = 2, p99 = 2, stddev = 0\<rparr>,
             file_size_kb = 681\<rparr>)
     (Some (NapiStats \<lparr>n_min = 1, n_max = 1, n_avg = 1, n_median = 1, n_p95 = 1\<rparr>
                      \<lparr>n_min = 1, n_max = 1, n_avg = 1, n_median = 1, n_p95 = 1\<rparr> 607))
   = Inr [Heading ''FILE SIZES'',
          FileSize ''Python (.so)'' (Some 681),
          FileSize ''NAPI (.node)'' (Some 607),
          FileSize ''WASI (.wasm)'' (Some 50),
          Heading ''STARTUP PERFORMANCE (ms)'',
          Row ''Average'' 2 1 1.203 ''NAPI'',
          Row ''Median'' 2 1 1.059 ''NAPI'',
          Row ''95th percentile'' 2 1 1.996 ''NAPI'',
          Heading ''OPERATION PERFORMANCE (ms)'',
          Row ''Average'' 2 1 0.396 ''WASI'',
          Row ''Median'' 2 1 0.230 ''WASI'',
          Heading ''PERFORMANCE RATIOS (relative to fastest)'',
          Ratios ''Startup speed'' 2 1 1.203,
          Ratios ''Operation speed'' (2 / 0.396) (1 / 0.396) 1,
          Heading ''TECHNOLOGY COMPARISON SUMMARY'',
          Heading ''USE CASE RECOMMENDATIONS'']"
  by (simp add: print_comprehensive_results_def comparison_def subscript_def
      ratios_to_fastest_def py_div_def fastest_name_def wasi_startup_avg_def
      wasi_ops_avg_def bind_e_def Let_def)

text \<open>
  C7, amended: in each of these cases, namely the Node.js benchmark returned
  \<^verbatim>\<open>None\<close>, or it returned an empty dictionary, or the Python binding is not
  available and the Node.js benchmark returned its statistics, the run completes. Its
  report gives the file size of each adapter that has results and \<^verbatim>\<open>N/A\<close> for each
  one that has none, and no startup or operation statistics and no ratios. A Node.js
  result that is an \<^verbatim>\<open>{"error": message}\<close> dictionary is not among the cases.
\<close>

theorem one_adapter_unavailable_report:
  assumes "nodejs_results = None \<or> nodejs_results = Some NapiEmpty
    \<or> (\<not> PYTHON_AVAILABLE \<and> nodejs_results = Some (NapiStats st ops kb))"
  shows "main PYTHON_AVAILABLE clk nodejs_results
    = Inr ([Heading ''FILE SIZES'',
            FileSize ''Python (.so)'' (if PYTHON_AVAILABLE then Some 681 else None),
            FileSize ''NAPI (.node)''
              (if nodejs_results = Some (NapiStats st ops kb) then Some kb else None),
            FileSize ''WASI (.wasm)'' (Some 50),
            Heading ''TECHNOLOGY COMPARISON SUMMARY'',
            Heading ''USE CASE RECOMMENDATIONS'',
            Heading ''Comprehensive benchmark complete!'']
           @ (if PYTHON_AVAILABLE then [] else [Hint ''To test Python performance'']))"
proof (cases PYTHON_AVAILABLE)
  case True
  then have n: "nodejs_results = None \<or> nodejs_results = Some NapiEmpty"
    using assms by simp
  then have "nodejs_results \<noteq> Some (NapiStats st ops kb)" by auto
  then show ?thesis
    using True main_without_nodejs_results[OF n, of clk] by simp
next
  case False
  then show ?thesis
    using assms by (auto simp: main_def print_comprehensive_results_def bind_e_def)
qed

theorem one_adapter_unavailable_report_witness:
  "main True int (Some NapiEmpty)
     = Inr [Heading ''FILE SIZES'',
            FileSize ''Python (.so)'' (Some 681),
            FileSize ''NAPI (.node)'' None,
            FileSize ''WASI (.wasm)'' (Some 50),
            Heading ''TECHNOLOGY COMPARISON SUMMARY'',
            Heading ''USE CASE RECOMMENDATIONS'',
            Heading ''Comprehensive benchmark complete!'']
   \<and> main False int
       (Some (NapiStats \<lparr>n_min = 1, n_max = 3, n_avg = 2, n_median = 2, n_p95 = 3\<rparr>
                        \<lparr>n_min = 1, n_max = 3, n_avg = 2, n_median = 2, n_p95 = 3\<rparr> 607))
     = Inr [Heading ''FILE SIZES'',
            FileSize ''Python (.so)'' None,
            FileSize ''NAPI (.node)'' (Some 607),
            FileSize ''WASI (.wasm)'' (Some 50),
            Heading ''TECHNOLOGY COMPARISON SUMMARY'',
            Heading ''USE CASE RECOMMENDATIONS'',
            Heading ''Comprehensive benchmark complete!'',
            Hint ''To test Python performance'']"
  using one_adapter_unavailable_report[of "Some NapiEmpty" True
      "\<lparr>n_min = 1, n_max = 3, n_avg = 2, n_median = 2, n_p95 = 3\<rparr>"
      "\<lparr>n_min = 1, n_max = 3, n_avg = 2, n_median = 2, n_p95 = 3\<rparr>" 607 int]
    one_adapter_unavailable_report[of
      "Some (NapiStats \<lparr>n_min = 1, n_max = 3, n_avg = 2, n_median = 2, n_p95 = 3\<rparr>
                       \<lparr>n_min = 1, n_max = 3, n_avg = 2, n_median = 2, n_p95 = 3\<rparr> 607)"
      False "\<lparr>n_min = 1, n_max = 3, n_avg = 2, n_median = 2, n_p95 = 3\<rparr>"
      "\<lparr>n_min = 1, n_max = 3, n_avg = 2, n_median = 2, n_p95 = 3\<rparr>" 607 int]
  by simp

end
